theory Spec2Isabelle
  imports Complex_Main
begin

section \<open>The maximum-likelihood intrinsic-dimension estimator of \<^verbatim>\<open>skdim/id/_MLE.py\<close>\<close>

text \<open>
  The class \<^verbatim>\<open>MLE\<close> is embedded with explicit state passing: every method takes the
  estimator object and returns the outcome (an exception or a value) together with the
  object as the call leaves it, because Python keeps the attribute assignments made
  before a \<^verbatim>\<open>raise\<close>.

  The attributes that \<^verbatim>\<open>fit\<close> creates are written without their trailing underscore
  (\<^verbatim>\<open>dimension_\<close> is \<open>dimension\<close>, \<^verbatim>\<open>dimension_pw_\<close> is \<open>dimension_pw\<close>, and so on), and
  the methods without their leading one (\<^verbatim>\<open>_fit\<close> is \<open>p_fit\<close>).

  Floating-point numbers are idealised as real numbers: there is no rounding and no
  overflow, and numpy's special values (\<^verbatim>\<open>nan\<close>, \<^verbatim>\<open>inf\<close>) do not exist. Where numpy
  would produce one (a division by zero, as in the noise density at \<^verbatim>\<open>sigma = 0\<close> or in
  the closed form on equal distances; the logarithm of zero; the mean of an empty array)
  the model has the value of HOL's total operation (\<open>x / 0 = 0\<close>, \<open>ln 0 = 0\<close>). The
  statements below are about the formulas the code evaluates and about its control
  flow; whether two different floating-point computations give the same double is
  outside the model. Distance vectors are numpy arrays, as \<^verbatim>\<open>fit\<close> passes them.
\<close>

subsection \<open>Exceptions and messages\<close>

text \<open>
  The exceptions carry the message where the text is fixed by the file itself, by the
  interpreter or by numpy. A ValueError raised inside scikit-learn's \<^verbatim>\<open>check_array\<close> and
  an IndexError of numpy carry what their message reports (the reason and the numbers in
  it) instead of the library's wording.
\<close>

datatype check_failure =
    NotTwoDimensional
  | InhomogeneousShape
  | NotFinite
  | TooFewSamples nat int
  | TooFewFeatures nat int

datatype error =
    NameError string
  | ValueError string
  | CheckArrayError check_failure
  | TypeError string
  | IndexError int nat
  | AttributeError string
  | RecursionError


definition quoted :: "string \<Rightarrow> string" where
  "quoted s = [CHR 0x27] @ s @ [CHR 0x27]"

definition msg_unknown_integral_approximation :: string where
  "msg_unknown_integral_approximation = ''Unknown integral_approximation parameter''"

definition msg_iteration_not_implemented :: string where
  "msg_iteration_not_implemented =
     ''integral_approximation='' @ quoted ''iteration''
       @ '' not implemented yet. See R intrinsicDimension package''"

definition msg_invalid_comb :: string where
  "msg_invalid_comb =
     ''Invalid comb parameter. It has to be '' @ quoted ''mean'' @ '' or '' @ quoted ''median''"

definition msg_zero_size_max :: string where
  "msg_zero_size_max =
     ''zero-size array to reduction operation maximum which has no identity''"

definition msg_not_callable :: "string \<Rightarrow> string" where
  "msg_not_callable ty = quoted ty @ '' object is not callable''"

subsection \<open>The names the module binds\<close>

text \<open>
  The module imports \<^verbatim>\<open>inspect\<close>, \<^verbatim>\<open>scipy.integrate\<close>, \<^verbatim>\<open>numpy as np\<close>,
  \<^verbatim>\<open>lens, get_nn, LocalEstimator\<close> and \<^verbatim>\<open>check_array\<close>, and defines \<^verbatim>\<open>MLE\<close>.
  A global name outside this list is unbound, and evaluating it raises NameError.
\<close>

definition module_globals :: "string list" where
  "module_globals =
     [''inspect'', ''scipy'', ''np'', ''lens'', ''get_nn'', ''LocalEstimator'',
      ''check_array'', ''MLE'']"

definition lookup_global :: "string \<Rightarrow> error + unit" where
  "lookup_global nm =
     (if nm \<in> set module_globals then Inr ()
      else Inl (NameError (''name '' @ quoted nm @ '' is not defined'')))"

definition warnings_warn :: "string \<Rightarrow> error + unit" where
  \<comment> \<open>\<^verbatim>\<open>warnings.warn(msg)\<close>: the name \<^verbatim>\<open>warnings\<close> is looked up first.\<close>
  "warnings_warn m = lookup_global ''warnings''"

subsection \<open>numpy and scikit-learn operations used by the module\<close>

definition np_max :: "real list \<Rightarrow> error + real" where
  \<comment> \<open>\<^verbatim>\<open>np.max\<close> raises ValueError on an empty array.\<close>
  "np_max xs =
     (case xs of [] \<Rightarrow> Inl (ValueError msg_zero_size_max)
      | x # rest \<Rightarrow> Inr (foldl max x rest))"

definition np_mean :: "real list \<Rightarrow> real" where
  "np_mean xs = sum_list xs / real (length xs)"

definition np_median :: "real list \<Rightarrow> real" where
  "np_median xs =
     (let s = sort xs; m = length s in
      if m = 0 then 0
      else if even m then (s ! (m div 2 - 1) + s ! (m div 2)) / 2
      else s ! (m div 2))"

definition np_index :: "real list \<Rightarrow> int \<Rightarrow> error + real" where
  \<comment> \<open>\<^verbatim>\<open>a[i]\<close>: a negative index counts from the end, out of range raises IndexError.\<close>
  "np_index xs i =
     (let m = int (length xs); j = (if i < 0 then m + i else i) in
      if 0 \<le> j \<and> j < m then Inr (xs ! nat j) else Inl (IndexError i (length xs)))"

fun np_take :: "real list \<Rightarrow> int list \<Rightarrow> error + real list" where
  \<comment> \<open>\<^verbatim>\<open>a[idx]\<close> with an integer array \<^verbatim>\<open>idx\<close>.\<close>
  "np_take xs [] = Inr []"
| "np_take xs (i # is) =
     (case np_index xs i of Inl e \<Rightarrow> Inl e
      | Inr v \<Rightarrow> (case np_take xs is of Inl e \<Rightarrow> Inl e | Inr vs \<Rightarrow> Inr (v # vs)))"

definition py_slice_to :: "int \<Rightarrow> 'a list \<Rightarrow> 'a list" where
  \<comment> \<open>\<^verbatim>\<open>xs[:m]\<close>; a negative \<^verbatim>\<open>m\<close> drops the last \<^verbatim>\<open>-m\<close> elements.\<close>
  "py_slice_to m xs = (if 0 \<le> m then take (nat m) xs else take (length xs - nat (- m)) xs)"

text \<open>
  The argument \<^verbatim>\<open>X\<close> of \<^verbatim>\<open>fit\<close> is array-like: a sequence of numbers or a sequence of
  rows. An entry is a number or one of the values \<^verbatim>\<open>nan\<close>, \<^verbatim>\<open>inf\<close>, \<^verbatim>\<open>-inf\<close>, which
  \<^verbatim>\<open>check_array\<close> refuses.
\<close>

datatype cell = Num real | NonFinite

datatype array_like = Vec "cell list" | Mat "cell list list"

fun len :: "array_like \<Rightarrow> int" where
  "len (Vec v) = int (length v)"
| "len (Mat rows) = int (length rows)"

definition rectangular :: "'a list list \<Rightarrow> bool" where
  "rectangular rows = list_all (\<lambda>r. length r = length (hd rows)) rows"

fun the_num :: "cell \<Rightarrow> real" where
  "the_num (Num x) = x"
| "the_num NonFinite = 0"

definition check_array :: "array_like \<Rightarrow> int \<Rightarrow> int \<Rightarrow> error + real list list" where
  \<comment> \<open>\<^verbatim>\<open>sklearn.utils.validation.check_array(X, ensure_min_samples, ensure_min_features)\<close>
      with its defaults, in the order of its checks: the input must convert to an array
      (rows of one length), the array must be two-dimensional, all its entries finite,
      and it must have enough rows and enough columns; otherwise ValueError.\<close>
  "check_array X ensure_min_samples ensure_min_features =
     (case X of
        Vec v \<Rightarrow> Inl (CheckArrayError NotTwoDimensional)
      | Mat rows \<Rightarrow>
          if rows = [] then Inl (CheckArrayError NotTwoDimensional)
          else if \<not> rectangular rows then Inl (CheckArrayError InhomogeneousShape)
          else if \<not> list_all (list_all (\<lambda>x. x \<noteq> NonFinite)) rows then
            Inl (CheckArrayError NotFinite)
          else if 0 < ensure_min_samples \<and> int (length rows) < ensure_min_samples then
            Inl (CheckArrayError (TooFewSamples (length rows) ensure_min_samples))
          else if 0 < ensure_min_features \<and> int (length (hd rows)) < ensure_min_features then
            Inl (CheckArrayError (TooFewFeatures (length (hd rows)) ensure_min_features))
          else Inr (map (map the_num) rows))"

subsection \<open>The integrator\<close>

text \<open>
  \<^verbatim>\<open>scipy.integrate.quad(f, a, b, epsrel=1e-2, epsabs=1e-2)\<close> is a deterministic procedure
  that evaluates the integrand at finitely many points, each chosen from the values seen
  so far, and then returns a number. It is a parameter of the model, given as the tree of
  its evaluations; an exception raised by the integrand leaves \<^verbatim>\<open>quad\<close> at once.
\<close>

datatype quad_strategy = Done real | Query real "real \<Rightarrow> quad_strategy"

primrec run_quad :: "quad_strategy \<Rightarrow> (real \<Rightarrow> error + real) \<Rightarrow> error + real" where
  "run_quad (Done v) f = Inr v"
| "run_quad (Query x next) f =
     (case f x of Inl e \<Rightarrow> Inl e | Inr y \<Rightarrow> run_quad (next y) f)"

text \<open>
  The collaborators that are not part of the file: the neighbour search \<^verbatim>\<open>get_nn\<close>
  (imported from \<^verbatim>\<open>_commonfuncs\<close>), the integrator, and the interpreter's recursion limit
  (the number of nested calls still available).
\<close>

record env =
  get_nn :: "real list list \<Rightarrow> int \<Rightarrow> real list list \<times> int list list"
  quad :: "real \<Rightarrow> real \<Rightarrow> quad_strategy"
  recursion_limit :: nat

subsection \<open>The estimator object\<close>

text \<open>
  The attribute \<^verbatim>\<open>dnoise\<close> holds, in turn, the constructor's argument (\<^verbatim>\<open>None\<close> or a
  string), the function \<^verbatim>\<open>self._dnoiseGaussH\<close> (line 275), or the closure
  \<^verbatim>\<open>lambda r, s, sigma, k: r * self.dnoise(r, s, sigma, k)\<close> (line 278). The closure
  captures \<^verbatim>\<open>self\<close>, not the value \<^verbatim>\<open>self.dnoise\<close> had: its body reads the attribute
  when it is called.
\<close>

datatype dnoise_val = DNone | DStr string | DGaussH | DLambda

record MLE =
  dnoise :: dnoise_val
  sigma :: real
  n :: "int option"
  integral_approximation :: string
  unbiased :: bool
  neighborhood_based :: bool
  K :: int
  n_neighbors :: "int option"
  comb :: "string option"
  dimension_pw :: "real list option"
  dimension :: "real option"
  dimension_pw_smooth :: "real list option"
  is_fitted_pw_smooth :: bool
  is_fitted_pw :: bool
  is_fitted :: bool

definition N_NEIGHBORS :: int where
  "N_NEIGHBORS = 20"

definition init :: "dnoise_val \<Rightarrow> real \<Rightarrow> int option \<Rightarrow> string \<Rightarrow> bool \<Rightarrow> bool \<Rightarrow> int \<Rightarrow> MLE" where
  \<comment> \<open>\<^verbatim>\<open>__init__\<close> stores its seven arguments; the other attributes do not exist yet.\<close>
  "init dn sg nd ia ub nb k =
     \<lparr> dnoise = dn, sigma = sg, n = nd, integral_approximation = ia, unbiased = ub,
       neighborhood_based = nb, K = k, n_neighbors = None, comb = None,
       dimension_pw = None, dimension = None, dimension_pw_smooth = None,
       is_fitted_pw_smooth = False, is_fitted_pw = False, is_fitted = False \<rparr>"

subsection \<open>The noise density\<close>

definition dnoiseGaussH :: "real \<Rightarrow> real \<Rightarrow> real \<Rightarrow> int option \<Rightarrow> real" where
  \<comment> \<open>\<^verbatim>\<open>_dnoiseGaussH(r, s, sigma, k=None)\<close>. At \<^verbatim>\<open>sigma = 0\<close> numpy gives \<^verbatim>\<open>nan\<close>, which the
      model does not have: the density is only used at a positive scale below.\<close>
  "dnoiseGaussH r s sg k = exp (- (1 / 2) * ((s - r) / sg) ^ 2) / (sg * sqrt (2 * pi))"

fun call_dnoise :: "nat \<Rightarrow> MLE \<Rightarrow> real \<Rightarrow> real \<Rightarrow> real \<Rightarrow> int option \<Rightarrow> error + real" where
  \<comment> \<open>\<^verbatim>\<open>self.dnoise(r, s, sigma, k)\<close> with the given number of nested calls left\<close>
  "call_dnoise depth self r s sg k =
     (case dnoise self of
        DNone \<Rightarrow> Inl (TypeError (msg_not_callable ''NoneType''))
      | DStr nm \<Rightarrow> Inl (TypeError (msg_not_callable ''str''))
      | DGaussH \<Rightarrow> Inr (dnoiseGaussH r s sg k)
      | DLambda \<Rightarrow>
          (case depth of
             0 \<Rightarrow> Inl RecursionError
           | Suc d \<Rightarrow>
               (case call_dnoise d self r s sg k of
                  Inl e \<Rightarrow> Inl e
                | Inr v \<Rightarrow> Inr (r * v))))"

subsection \<open>\<^verbatim>\<open>_maxLikDimEstFromR_haro_approx\<close>\<close>

definition numInt :: "env \<Rightarrow> MLE \<Rightarrow> real \<Rightarrow> real \<Rightarrow> real \<Rightarrow> real \<Rightarrow> error + real" where
  \<comment> \<open>\<^verbatim>\<open>self.dnoise(x, Rj, sigma, self.n) * np.log(Rk / x)\<close>\<close>
  "numInt E self Rj sg Rk x =
     (case call_dnoise (recursion_limit E) self x Rj sg (n self) of
        Inl e \<Rightarrow> Inl e
      | Inr d \<Rightarrow> Inr (d * ln (Rk / x)))"

definition denomInt :: "env \<Rightarrow> MLE \<Rightarrow> real \<Rightarrow> real \<Rightarrow> real \<Rightarrow> error + real" where
  \<comment> \<open>\<^verbatim>\<open>self.dnoise(x, Rj, sigma, self.n)\<close>\<close>
  "denomInt E self Rj sg x = call_dnoise (recursion_limit E) self x Rj sg (n self)"

fun integrals :: "env \<Rightarrow> MLE \<Rightarrow> real \<Rightarrow> real \<Rightarrow> real \<Rightarrow> real list \<Rightarrow> error + (real \<times> real) list" where
  \<comment> \<open>the loop \<^verbatim>\<open>for j in range(k - 1)\<close>, over \<^verbatim>\<open>Rj = Rs[j]\<close>\<close>
  "integrals E self sg Rk Rpr [] = Inr []"
| "integrals E self sg Rk Rpr (Rj # rest) =
     (case run_quad (quad E 0 Rpr) (numInt E self Rj sg Rk) of
        Inl e \<Rightarrow> Inl e
      | Inr numerator_j \<Rightarrow>
          (case run_quad (quad E 0 Rpr) (denomInt E self Rj sg) of
             Inl e \<Rightarrow> Inl e
           | Inr denominator_j \<Rightarrow>
               (case integrals E self sg Rk Rpr rest of
                  Inl e \<Rightarrow> Inl e
                | Inr nds \<Rightarrow> Inr ((numerator_j, denominator_j) # nds))))"

definition maxLikDimEstFromR_haro_approx :: "env \<Rightarrow> MLE \<Rightarrow> real list \<Rightarrow> real \<Rightarrow> error + real" where
  "maxLikDimEstFromR_haro_approx E self Rs sg =
     (let k = int (length Rs);
          kfac = (if unbiased self then k - 2 else k - 1)
      in case np_max Rs of
           Inl e \<Rightarrow> Inl e
         | Inr Rk \<Rightarrow>
             if dnoise self = DNone then
               Inr (real_of_int kfac / sum_list (map (\<lambda>R. ln (Rk / R)) Rs))
             else
               (let Rpr = Rk + 100 * sg
                in case integrals E self sg Rk Rpr (take (nat (k - 1)) Rs) of
                     Inl e \<Rightarrow> Inl e
                   | Inr nds \<Rightarrow>
                       Inr (real_of_int kfac / sum_list (map (\<lambda>(nu, de). nu / de) nds))))"

subsection \<open>\<^verbatim>\<open>_fit\<close>\<close>

definition p_fit :: "env \<Rightarrow> MLE \<Rightarrow> real list \<Rightarrow> real \<Rightarrow> (error + real) \<times> MLE" where
  \<comment> \<open>\<^verbatim>\<open>_fit(self, Rs, sigma)\<close>; line 280 passes \<^verbatim>\<open>self.sigma\<close>\<close>
  "p_fit E self Rs sg =
     (if integral_approximation self \<notin> set [''Haro'', ''guaranteed.convergence'', ''iteration'']
      then (Inl (ValueError msg_unknown_integral_approximation), self)
      else
        let self1 = (if dnoise self = DStr ''dnoiseGaussH''
                     then self\<lparr>dnoise := DGaussH\<rparr> else self);
            self2 = (if \<not> integral_approximation self1 = ''Haro'' \<and> dnoise self1 \<noteq> DNone
                     then self1\<lparr>dnoise := DLambda\<rparr> else self1)
        in case maxLikDimEstFromR_haro_approx E self2 Rs (sigma self2) of
             Inl e \<Rightarrow> (Inl e, self2)
           | Inr de \<Rightarrow>
               if integral_approximation self2 = ''iteration''
               then (Inl (ValueError msg_iteration_not_implemented), self2)
               else (Inr de, self2))"

subsection \<open>\<^verbatim>\<open>_maxLikPointwiseDimEst\<close>\<close>

fun maxLikPointwiseDimEst :: "env \<Rightarrow> MLE \<Rightarrow> real list list \<Rightarrow> (error + real list) \<times> MLE" where
  \<comment> \<open>the loop \<^verbatim>\<open>for i in range(len(dists)): de[i] = self._fit(dists[i, :], self.sigma)\<close>\<close>
  "maxLikPointwiseDimEst E self [] = (Inr [], self)"
| "maxLikPointwiseDimEst E self (Rs # rest) =
     (case p_fit E self Rs (sigma self) of
        (Inl e, self1) \<Rightarrow> (Inl e, self1)
      | (Inr d, self1) \<Rightarrow>
          (case maxLikPointwiseDimEst E self1 rest of
             (Inl e, self2) \<Rightarrow> (Inl e, self2)
           | (Inr ds, self2) \<Rightarrow> (Inr (d # ds), self2)))"

subsection \<open>\<^verbatim>\<open>fit\<close>\<close>

fun smooth_loop :: "real list \<Rightarrow> nat \<Rightarrow> int list list \<Rightarrow> real list \<Rightarrow> error option \<times> real list" where
  \<comment> \<open>\<^verbatim>\<open>for i, point_nn in enumerate(knnidx)\<close>, filling \<^verbatim>\<open>dimension_pw_smooth_\<close>\<close>
  "smooth_loop pw i [] acc = (None, acc)"
| "smooth_loop pw i (point_nn # rest) acc =
     (case np_index pw (int i) of
        Inl e \<Rightarrow> (Some e, acc)
      | Inr own \<Rightarrow>
          (case np_take pw point_nn of
             Inl e \<Rightarrow> (Some e, acc)
           | Inr nb \<Rightarrow> smooth_loop pw (Suc i) rest (acc[i := np_mean (own # nb)])))"

definition combine :: "MLE \<Rightarrow> real list \<Rightarrow> error + MLE" where
  \<comment> \<open>lines 163 to 172: the chain on \<^verbatim>\<open>self.comb\<close>\<close>
  "combine self de =
     (case comb self of
        None \<Rightarrow> Inl (AttributeError ''comb'')
      | Some c \<Rightarrow>
          if c = ''mean'' then Inr (self\<lparr>dimension := Some (np_mean de)\<rparr>)
          else if c = ''median'' then Inr (self\<lparr>dimension := Some (np_median de)\<rparr>)
          else if c = ''mle'' then
            Inr (self\<lparr>dimension := Some (1 / np_mean (map (\<lambda>d. 1 / d) de))\<rparr>)
          else Inl (ValueError msg_invalid_comb))"

definition smooth_estimates :: "MLE \<Rightarrow> int list list \<Rightarrow> real list \<Rightarrow> (error + unit) \<times> MLE" where
  \<comment> \<open>lines 176 to 181\<close>
  "smooth_estimates self knnidx de =
     (case smooth_loop de 0 knnidx (replicate (length knnidx) 0) of
        (Some e, sm) \<Rightarrow> (Inl e, self\<lparr>dimension_pw_smooth := Some sm\<rparr>)
      | (None, sm) \<Rightarrow>
          (Inr (), self\<lparr>dimension_pw_smooth := Some sm, is_fitted_pw_smooth := True\<rparr>))"

definition estimate :: "env \<Rightarrow> MLE \<Rightarrow> real list list \<Rightarrow> int list list \<Rightarrow> bool \<Rightarrow> (error + unit) \<times> MLE" where
  \<comment> \<open>lines 160 to 194\<close>
  "estimate E self dists knnidx smooth =
     (if neighborhood_based self then
        (case maxLikPointwiseDimEst E self dists of
           (Inl e, self1) \<Rightarrow> (Inl e, self1)
         | (Inr de, self1) \<Rightarrow>
             (let self2 = self1\<lparr>dimension_pw := Some de\<rparr> in
              case combine self2 de of
                Inl e \<Rightarrow> (Inl e, self2)
              | Inr self3 \<Rightarrow>
                  (case (if smooth then smooth_estimates self3 knnidx de else (Inr (), self3)) of
                     (Inl e, self4) \<Rightarrow> (Inl e, self4)
                   | (Inr u, self4) \<Rightarrow>
                       (Inr (), self4\<lparr>is_fitted_pw := True, is_fitted := True\<rparr>))))
      else
        (case n_neighbors self of
           None \<Rightarrow> (Inl (AttributeError ''n_neighbors''), self)
         | Some m \<Rightarrow>
             (let Rs = py_slice_to m (sort (remdups (concat (transpose dists))))
              in case p_fit E self Rs (sqrt 2 * sigma self) of
                   (Inl e, self1) \<Rightarrow> (Inl e, self1)
                 | (Inr de, self1) \<Rightarrow>
                     (Inr (), self1\<lparr>dimension := Some de, is_fitted := True\<rparr>))))"

definition fit ::
  "env \<Rightarrow> MLE \<Rightarrow> array_like \<Rightarrow> (real list list \<times> int list list) option \<Rightarrow> bool
     \<Rightarrow> int option \<Rightarrow> string \<Rightarrow> (error + unit) \<times> MLE" where
  \<comment> \<open>\<^verbatim>\<open>fit(self, X, y, precomputed_knn_arrays, smooth, n_neighbors, comb, n_jobs)\<close>\<close>
  "fit E self X precomputed_knn_arrays smooth n_neighbors_arg comb_arg =
     (let nn0 = (case n_neighbors_arg of None \<Rightarrow> N_NEIGHBORS | Some v \<Rightarrow> v) in
      case (if nn0 \<ge> len X
            then (case warnings_warn ''n_neighbors >= len(X), setting n_neighbors = len(X)-1'' of
                    Inl e \<Rightarrow> Inl e | Inr u \<Rightarrow> Inr (len X - 1))
            else Inr nn0) of
        Inl e \<Rightarrow> (Inl e, self)
      | Inr nn \<Rightarrow>
          (case (if K self \<ge> len X
                 then (case warnings_warn ''self.K >= len(X), setting n_neighbors = len(X)-1'' of
                         Inl e \<Rightarrow> Inl e | Inr u \<Rightarrow> Inr (self\<lparr>K := len X - 1\<rparr>))
                 else Inr self) of
             Inl e \<Rightarrow> (Inl e, self)
           | Inr self1 \<Rightarrow>
               (let self2 = self1\<lparr>n_neighbors := Some nn, comb := Some comb_arg\<rparr> in
                case check_array X (nn + 1) 2 of
                  Inl e \<Rightarrow> (Inl e, self2)
                | Inr Xc \<Rightarrow>
                    (let (dists, knnidx) =
                           (case precomputed_knn_arrays of
                              Some p \<Rightarrow> p
                            | None \<Rightarrow>
                                if neighborhood_based self2 then get_nn E Xc nn
                                else get_nn E Xc (K self2))
                     in estimate E self2 dists knnidx smooth))))"

definition fit_predict ::
  "env \<Rightarrow> MLE \<Rightarrow> array_like \<Rightarrow> (real list list \<times> int list list) option \<Rightarrow> bool
     \<Rightarrow> int option \<Rightarrow> string \<Rightarrow> (error + real) \<times> MLE" where
  "fit_predict E self X precomputed_knn_arrays smooth n_neighbors_arg comb_arg =
     (case fit E self X precomputed_knn_arrays smooth n_neighbors_arg comb_arg of
        (Inl e, self1) \<Rightarrow> (Inl e, self1)
      | (Inr u, self1) \<Rightarrow>
          (case dimension self1 of
             None \<Rightarrow> (Inl (AttributeError ''dimension''), self1)
           | Some d \<Rightarrow> (Inr d, self1)))"

subsection \<open>A small environment and data set\<close>

text \<open>
  The one-point rule at the right end of the interval, as an integrator that really
  evaluates its integrand; a neighbour search that reports no neighbour (the examples
  pass their neighbour arrays to \<^verbatim>\<open>fit\<close> themselves); CPython's default recursion limit.
\<close>

definition right_end_rule :: "real \<Rightarrow> real \<Rightarrow> quad_strategy" where
  "right_end_rule a b = Query b (\<lambda>y. Done ((b - a) * y))"

definition env0 :: env where
  "env0 = \<lparr> get_nn = (\<lambda>X k. (map (\<lambda>r. []) X, map (\<lambda>r. []) X)),
            quad = right_end_rule, recursion_limit = 1000 \<rparr>"

text \<open>Three points on a line in the plane, with their two nearest neighbours.\<close>

definition X3 :: array_like where
  "X3 = Mat [[Num 0, Num 0], [Num 1, Num 0], [Num 3, Num 0]]"

definition knn3 :: "real list list \<times> int list list" where
  "knn3 = ([[1, 3], [1, 2], [2, 3]], [[1, 2], [0, 2], [1, 0]])"

text \<open>Estimator objects as the constructor makes them.\<close>

definition mle_default :: MLE where
  \<comment> \<open>\<^verbatim>\<open>MLE(K=2)\<close>\<close>
  "mle_default = init DNone 0 None ''Haro'' False True 2"

definition mle_noise :: MLE where
  \<comment> \<open>\<^verbatim>\<open>MLE(dnoise="dnoiseGaussH", sigma=1, K=2)\<close>\<close>
  "mle_noise = init (DStr ''dnoiseGaussH'') 1 None ''Haro'' False True 2"

definition mle_global :: MLE where
  \<comment> \<open>\<^verbatim>\<open>MLE(dnoise="dnoiseGaussH", sigma=1, neighborhood_based=False, K=2)\<close>\<close>
  "mle_global = init (DStr ''dnoiseGaussH'') 1 None ''Haro'' False False 2"

definition mle_gc :: MLE where
  \<comment> \<open>\<^verbatim>\<open>MLE(dnoise="dnoiseGaussH", sigma=1, integral_approximation="guaranteed.convergence", K=2)\<close>\<close>
  "mle_gc = init (DStr ''dnoiseGaussH'') 1 None ''guaranteed.convergence'' False True 2"

definition mle_iteration :: MLE where
  \<comment> \<open>\<^verbatim>\<open>MLE(integral_approximation="iteration", K=2)\<close>\<close>
  "mle_iteration = init DNone 0 None ''iteration'' False True 2"

definition mle_bogus :: MLE where
  \<comment> \<open>\<^verbatim>\<open>MLE(integral_approximation="bogus", K=2)\<close>\<close>
  "mle_bogus = init DNone 0 None ''bogus'' False True 2"

subsection \<open>Notions used in the statements\<close>

definition resolve_dnoise :: "MLE \<Rightarrow> dnoise_val" where
  \<comment> \<open>the value of \<^verbatim>\<open>self.dnoise\<close> when \<^verbatim>\<open>_fit\<close> has run lines 267 to 278\<close>
  "resolve_dnoise self =
     (if integral_approximation self \<notin> set [''Haro'', ''guaranteed.convergence'', ''iteration'']
      then dnoise self
      else
        let d1 = (if dnoise self = DStr ''dnoiseGaussH'' then DGaussH else dnoise self)
        in if integral_approximation self \<noteq> ''Haro'' \<and> d1 \<noteq> DNone then DLambda else d1)"

definition shape_ok :: "array_like \<Rightarrow> int \<Rightarrow> bool" where
  \<comment> \<open>two-dimensional, with at least \<open>m + 1\<close> samples and at least 2 features\<close>
  "shape_ok X m =
     (case X of
        Vec v \<Rightarrow> False
      | Mat rows \<Rightarrow>
          rows \<noteq> [] \<and> rectangular rows \<and> m + 1 \<le> int (length rows) \<and> 2 \<le> length (hd rows))"


fun contains :: "string \<Rightarrow> string \<Rightarrow> bool" where
  \<comment> \<open>\<^verbatim>\<open>needle in hay\<close> on strings\<close>
  "contains needle [] = (needle = [])"
| "contains needle (c # cs) = (take (length needle) (c # cs) = needle \<or> contains needle cs)"

section \<open>Lemmas\<close>

declare call_dnoise.simps [simp del]

subsection \<open>The density call\<close>

lemma call_dnoise_lambda:
  "dnoise self = DLambda \<Longrightarrow> call_dnoise d self r s sg k = Inl RecursionError"
proof (induction d)
  case 0
  then show ?case by (simp add: call_dnoise.simps)
next
  case (Suc d)
  then show ?case by (subst call_dnoise.simps) simp
qed

lemma call_dnoise_cong:
  "dnoise s = dnoise t \<Longrightarrow> call_dnoise d s r v sg k = call_dnoise d t r v sg k"
proof (induction d)
  case 0
  then show ?case
    by (simp add: call_dnoise.simps [of 0 s] call_dnoise.simps [of 0 t]
             split: dnoise_val.splits)
next
  case (Suc d)
  then show ?case
    by (simp add: call_dnoise.simps [of "Suc d" s] call_dnoise.simps [of "Suc d" t]
             split: dnoise_val.splits)
qed

lemma gauss_pos: "0 < sg \<Longrightarrow> 0 < dnoiseGaussH r s sg k"
  by (simp add: dnoiseGaussH_def)

subsection \<open>The pointwise estimate depends on five options only\<close>

lemma numInt_cong:
  "dnoise s = dnoise t \<Longrightarrow> n s = n t \<Longrightarrow> numInt E s = numInt E t"
  by (intro ext) (simp add: numInt_def call_dnoise_cong [of s t])

lemma denomInt_cong:
  "dnoise s = dnoise t \<Longrightarrow> n s = n t \<Longrightarrow> denomInt E s = denomInt E t"
  by (intro ext) (simp add: denomInt_def call_dnoise_cong [of s t])

lemma integrals_cong:
  "dnoise s = dnoise t \<Longrightarrow> n s = n t \<Longrightarrow>
   integrals E s sg Rk Rpr Rs = integrals E t sg Rk Rpr Rs"
  by (induction Rs) (simp_all add: numInt_cong [of s t] denomInt_cong [of s t] cong: sum.case_cong)

lemma haro_cong:
  assumes "dnoise s = dnoise t" "n s = n t" "unbiased s = unbiased t"
  shows "maxLikDimEstFromR_haro_approx E s Rs sg = maxLikDimEstFromR_haro_approx E t Rs sg"
  using assms
  by (simp add: maxLikDimEstFromR_haro_approx_def integrals_cong [of s t] Let_def
           cong: sum.case_cong if_cong)

subsection \<open>What \<open>p_fit\<close> does to the object\<close>

lemma p_fit_state: "snd (p_fit E self Rs sg) = self\<lparr>dnoise := resolve_dnoise self\<rparr>"
  by (simp add: p_fit_def resolve_dnoise_def Let_def split: sum.splits)

lemma resolve_dnoise_idem [simp]:
  "resolve_dnoise (self\<lparr>dnoise := resolve_dnoise self\<rparr>) = resolve_dnoise self"
  by (simp add: resolve_dnoise_def Let_def)

lemma resolve_dnoise_None [simp]: "dnoise self = DNone \<Longrightarrow> resolve_dnoise self = DNone"
  by (simp add: resolve_dnoise_def)

lemma p_fit_sigma_ignored: "p_fit E self Rs sg = p_fit E self Rs sg'"
  by (simp add: p_fit_def)

lemma p_fit_cong:
  assumes "dnoise s = dnoise t" "n s = n t" "unbiased s = unbiased t" "sigma s = sigma t"
    "integral_approximation s = integral_approximation t"
  shows "fst (p_fit E s Rs sg) = fst (p_fit E t Rs sg')"
proof -
  have "maxLikDimEstFromR_haro_approx E (s\<lparr>dnoise := d\<rparr>) Rs (sigma t)
      = maxLikDimEstFromR_haro_approx E (t\<lparr>dnoise := d\<rparr>) Rs (sigma t)" for d
    using assms by (intro haro_cong) simp_all
  moreover have "maxLikDimEstFromR_haro_approx E s Rs (sigma t)
      = maxLikDimEstFromR_haro_approx E t Rs (sigma t)"
    using assms by (intro haro_cong) simp_all
  ultimately show ?thesis
    using assms by (simp add: p_fit_def Let_def split: sum.splits)
qed

lemma pointwise_state:
  "snd (maxLikPointwiseDimEst E self dists) =
     (if dists = [] then self else self\<lparr>dnoise := resolve_dnoise self\<rparr>)"
proof (induction dists arbitrary: self)
  case Nil
  then show ?case by simp
next
  case (Cons Rs rest)
  obtain r1 s1 where p: "p_fit E self Rs (sigma self) = (r1, s1)" by (cases "p_fit E self Rs (sigma self)")
  then have s1: "s1 = self\<lparr>dnoise := resolve_dnoise self\<rparr>"
    using p_fit_state [of E self Rs "sigma self"] by simp
  show ?case
  proof (cases r1)
    case (Inl e)
    then show ?thesis using p s1 by simp
  next
    case (Inr d)
    obtain r2 s2 where q: "maxLikPointwiseDimEst E s1 rest = (r2, s2)"
      by (cases "maxLikPointwiseDimEst E s1 rest")
    then have "s2 = (if rest = [] then s1 else s1\<lparr>dnoise := resolve_dnoise s1\<rparr>)"
      using Cons.IH [of s1] by simp
    then have "s2 = self\<lparr>dnoise := resolve_dnoise self\<rparr>"
      using s1 by simp
    then show ?thesis using p q Inr by (cases r2) simp_all
  qed
qed

lemma pointwise_cong:
  assumes "dnoise s = dnoise t" "n s = n t" "unbiased s = unbiased t" "sigma s = sigma t"
    "integral_approximation s = integral_approximation t"
  shows "fst (maxLikPointwiseDimEst E s dists) = fst (maxLikPointwiseDimEst E t dists)"
  using assms
proof (induction dists arbitrary: s t)
  case Nil
  then show ?case by simp
next
  case (Cons Rs rest)
  obtain r1 s1 where p: "p_fit E s Rs (sigma s) = (r1, s1)" by (cases "p_fit E s Rs (sigma s)")
  obtain r1' t1 where p': "p_fit E t Rs (sigma t) = (r1', t1)" by (cases "p_fit E t Rs (sigma t)")
  have r: "r1' = r1" using p_fit_cong [OF Cons.prems, of E Rs "sigma s" "sigma t"] p p' by simp
  have s1: "s1 = s\<lparr>dnoise := resolve_dnoise s\<rparr>" using p_fit_state [of E s Rs "sigma s"] p by simp
  have t1: "t1 = t\<lparr>dnoise := resolve_dnoise t\<rparr>" using p_fit_state [of E t Rs "sigma t"] p' by simp
  have rs: "resolve_dnoise s = resolve_dnoise t" using Cons.prems by (simp add: resolve_dnoise_def)
  have "fst (maxLikPointwiseDimEst E s1 rest) = fst (maxLikPointwiseDimEst E t1 rest)"
    using Cons.prems s1 t1 rs by (intro Cons.IH) simp_all
  then show ?case using p p' r by (auto split: sum.splits prod.splits)
qed


subsection \<open>Reaching the estimation\<close>

lemma warnings_unbound:
  "warnings_warn m = Inl (NameError (''name '' @ quoted ''warnings'' @ '' is not defined''))"
  by (simp add: warnings_warn_def lookup_global_def module_globals_def)

lemma fit_too_few_samples:
  assumes "len X \<le> (case nn_arg of None \<Rightarrow> N_NEIGHBORS | Some v \<Rightarrow> v)"
  shows "fit E self X pre smooth nn_arg c =
           (Inl (NameError (''name '' @ quoted ''warnings'' @ '' is not defined'')), self)"
  using assms by (simp add: fit_def warnings_unbound Let_def)

lemma fit_K_too_large:
  assumes "len X \<le> K self"
  shows "fit E self X pre smooth nn_arg c =
           (Inl (NameError (''name '' @ quoted ''warnings'' @ '' is not defined'')), self)"
  using assms by (simp add: fit_def warnings_unbound Let_def)

lemma len_X3: "len X3 = 3"
  by (simp add: X3_def)

subsection \<open>Maximum and sums\<close>

lemma foldl_max_Max: "foldl max x xs = Max (set (x # xs))" for x :: real
  by (simp add: Max.set_eq_fold foldl_conv_fold max.commute del: set_simps)

lemma np_max_Max: "Rs \<noteq> [] \<Longrightarrow> np_max Rs = Inr (Max (set Rs))"
  by (cases Rs) (simp_all add: np_max_def foldl_max_Max del: Max_insert set_simps)

lemma np_max_Nil: "np_max [] = Inl (ValueError msg_zero_size_max)"
  by (simp add: np_max_def)

lemma Max_scale:
  fixes c :: real
  assumes "0 < c" "Rs \<noteq> []"
  shows "Max (set (map ((*) c) Rs)) = c * Max (set Rs)"
proof -
  have "mono ((*) c)" using assms(1) by (simp add: mono_def)
  then have "c * Max (set Rs) = Max ((*) c ` set Rs)"
    using assms(2) by (intro mono_Max_commute) simp_all
  then show ?thesis by simp
qed

lemma sum_list_nth: "sum_list (map f xs) = (\<Sum>i<length xs. f (xs ! i))"
  for f :: "real \<Rightarrow> real"
  by (simp add: sum_list_sum_nth atLeast0LessThan)

subsection \<open>The closed form\<close>

text \<open>
  Over the real numbers the closed form does not change when every distance is
  multiplied by the same positive factor. In double precision the two computations
  round differently, which this model does not have.
\<close>

lemma haro_scale:
  assumes "0 < c" "dnoise self = DNone"
  shows "maxLikDimEstFromR_haro_approx E self (map ((*) c) Rs) sg
           = maxLikDimEstFromR_haro_approx E self Rs sg"
proof (cases "Rs = []")
  case True
  then show ?thesis by simp
next
  case False
  have ratio: "c * Rk / (c * R) = Rk / R" for Rk R :: real
    using assms(1) by simp
  show ?thesis
    using False assms
    by (simp add: maxLikDimEstFromR_haro_approx_def np_max_Max Max_scale comp_def ratio
             del: set_map)
qed

lemma haro_no_noise:
  assumes "dnoise self = DNone" "Rs \<noteq> []"
  shows "maxLikDimEstFromR_haro_approx E self Rs sg =
           Inr (real_of_int (if unbiased self then int (length Rs) - 2 else int (length Rs) - 1)
                  / (\<Sum>i<length Rs. ln (Max (set Rs) / Rs ! i)))"
  using assms by (simp add: maxLikDimEstFromR_haro_approx_def np_max_Max sum_list_nth)

lemma haro_example:
  assumes "dnoise self = DNone" "\<not> unbiased self"
  shows "maxLikDimEstFromR_haro_approx E self [1, 2, 3, 4, 5] sg =
           Inr (4 / (ln (5 / 1) + ln (5 / 2) + ln (5 / 3) + ln (5 / 4) + ln (5 / 5)))"
  using assms by (simp add: maxLikDimEstFromR_haro_approx_def np_max_def)

subsection \<open>Bounds for the example value\<close>

lemma e_bounds: "(685 / 252 :: real) \<le> exp 1" "exp 1 \<le> (109603 / 40320 :: real)"
proof -
  obtain t :: real where t: "\<bar>t\<bar> \<le> \<bar>1\<bar>"
      "exp 1 = (\<Sum>m<8. (1 ^ m) / fact m) + (exp t / fact 8) * 1 ^ 8"
    using Maclaurin_exp_le [of 1 8] by blast
  have s: "(\<Sum>m<8. (1 ^ m) / fact m) = (685 / 252 :: real)"
    by (simp add: eval_nat_numeral lessThan_Suc fact_numeral)
  have "exp t \<le> exp 1" using t(1) by simp
  then have u: "exp t \<le> 3" using exp_le by linarith
  have l: "0 \<le> exp t" by simp
  have f: "(fact 8 :: real) = 40320" by (simp add: eval_nat_numeral)
  from t(2) s f have eq: "exp 1 = 685 / 252 + exp t / 40320" by simp
  show "(685 / 252 :: real) \<le> exp 1" using eq l by simp
  show "exp 1 \<le> (109603 / 40320 :: real)" using eq u by simp
qed

lemma exp_rat_power: "0 < q \<Longrightarrow> exp (real p / real q) ^ q = exp 1 ^ p"
proof -
  assume q: "0 < q"
  have "exp (real p / real q) ^ q = exp (real q * (real p / real q))"
    by (simp only: exp_of_nat_mult)
  also have "\<dots> = exp (real p * 1)" using q by simp
  also have "\<dots> = exp 1 ^ p" by (simp only: exp_of_nat_mult)
  finally show ?thesis .
qed

lemma ln_sum_example:
  "ln (5 / 1) + ln (5 / 2) + ln (5 / 3) + ln (5 / 4) + ln (5 / 5) = ln (625 / 24 :: real)"
proof -
  have a: "ln (5 :: real) + ln (5 / 2) = ln (25 / 2)"
    using ln_mult [of "5 :: real" "5 / 2"] by simp
  have b: "ln (25 / 2 :: real) + ln (5 / 3) = ln (125 / 6)"
    using ln_mult [of "25 / 2 :: real" "5 / 3"] by simp
  have c: "ln (125 / 6 :: real) + ln (5 / 4) = ln (625 / 24)"
    using ln_mult [of "125 / 6 :: real" "5 / 4"] by simp
  show ?thesis using a b c by simp
qed

lemma ln_example_lower: "(88 / 27 :: real) < ln (625 / 24)"
proof -
  have "exp (real 88 / real 27) ^ 27 = exp 1 ^ 88"
    by (rule exp_rat_power) simp
  also have "\<dots> \<le> (109603 / 40320 :: real) ^ 88"
    using e_bounds(2) by (intro power_mono) simp_all
  also have "\<dots> < (625 / 24) ^ 27"
    by (simp add: power_divide divide_simps)
  finally have "exp (real 88 / real 27) < (625 / 24 :: real)"
    using power_less_imp_less_base [of "exp (real 88 / real 27)" 27 "625 / 24 :: real"] by simp
  then show ?thesis
    using ln_less_cancel_iff [of "exp (88 / 27)" "625 / 24 :: real"] by simp
qed

lemma ln_example_upper: "ln (625 / 24) < (75 / 23 :: real)"
proof -
  have "(625 / 24 :: real) ^ 23 < (685 / 252) ^ 75"
    by (simp add: power_divide divide_simps)
  also have "\<dots> \<le> exp 1 ^ 75"
    using e_bounds(1) by (intro power_mono) simp_all
  also have "\<dots> = exp (real 75 / real 23) ^ 23"
    by (rule exp_rat_power [symmetric]) simp
  finally have "(625 / 24 :: real) < exp (real 75 / real 23)"
    using power_less_imp_less_base [of "625 / 24 :: real" 23 "exp (real 75 / real 23)"] by simp
  then show ?thesis
    using ln_less_cancel_iff [of "625 / 24 :: real" "exp (75 / 23)"] by simp
qed

lemma example_value_bounds:
  "(92 / 75 :: real) < 4 / (ln (5 / 1) + ln (5 / 2) + ln (5 / 3) + ln (5 / 4) + ln (5 / 5))"
  "4 / (ln (5 / 1) + ln (5 / 2) + ln (5 / 3) + ln (5 / 4) + ln (5 / 5)) < (27 / 22 :: real)"
proof -
  let ?L = "ln (625 / 24 :: real)"
  have pos: "0 < ?L" using ln_example_lower by linarith
  have "(92 / 75) * ?L < 4" using ln_example_upper by simp
  then show "(92 / 75 :: real) < 4 / (ln (5 / 1) + ln (5 / 2) + ln (5 / 3) + ln (5 / 4) + ln (5 / 5))"
    unfolding ln_sum_example using pos by (simp add: less_divide_eq)
  have "4 < (27 / 22) * ?L" using ln_example_lower by simp
  then show "4 / (ln (5 / 1) + ln (5 / 2) + ln (5 / 3) + ln (5 / 4) + ln (5 / 5)) < (27 / 22 :: real)"
    unfolding ln_sum_example using pos by (simp add: divide_less_eq)
qed

subsection \<open>The examples\<close>

lemma check_X3: "check_array X3 3 2 = Inr [[0, 0], [1, 0], [3, 0]]"
  by (simp add: check_array_def X3_def rectangular_def)


lemma fit_reaches_estimate:
  assumes "(case nn_arg of None \<Rightarrow> N_NEIGHBORS | Some v \<Rightarrow> v) = nn"
    and "nn < len X" and "K self < len X"
    and "check_array X (nn + 1) 2 = Inr Xc"
  shows "fit E self X (Some (dists, knnidx)) smooth nn_arg c =
           estimate E (self\<lparr>n_neighbors := Some nn, comb := Some c\<rparr>) dists knnidx smooth"
  using assms by (simp add: fit_def Let_def)

lemma fit_X3:
  assumes "K self = 2"
  shows "fit E self X3 (Some knn3) smooth (Some 2) c =
           estimate E (self\<lparr>n_neighbors := Some 2, comb := Some c\<rparr>) (fst knn3) (snd knn3) smooth"
proof -
  have "fit E self X3 (Some (fst knn3, snd knn3)) smooth (Some 2) c =
           estimate E (self\<lparr>n_neighbors := Some 2, comb := Some c\<rparr>) (fst knn3) (snd knn3) smooth"
    by (rule fit_reaches_estimate [where Xc = "[[0, 0], [1, 0], [3, 0]]"])
       (simp_all add: len_X3 check_X3 assms)
  then show ?thesis by simp
qed

lemma flatten_knn3: "sort (remdups (concat (transpose (fst knn3)))) = [1, 2, 3]"
  by (simp add: knn3_def transpose.simps)

lemma haro_right_end_pair:
  assumes "dnoise s = DGaussH" "\<not> unbiased s" "0 < sg"
  shows "maxLikDimEstFromR_haro_approx env0 s [1, 2] sg = Inr (1 / ln (2 / (2 + 100 * sg)))"
proof -
  have g: "dnoiseGaussH (2 + 100 * sg) 1 sg (n s) \<noteq> 0"
    using gauss_pos [OF assms(3), of "2 + 100 * sg" 1 "n s"] by simp
  have p: "2 + 100 * sg \<noteq> 0" using assms(3) by simp
  show ?thesis
    using g p assms(1,2)
    by (simp add: maxLikDimEstFromR_haro_approx_def np_max_def env0_def right_end_rule_def
              numInt_def denomInt_def call_dnoise.simps)
qed

lemma haro_lambda_raises:
  assumes "dnoise s = DLambda" "quad E 0 (Rk + 100 * sg) = Query x cont" "np_max Rs = Inr Rk"
    "2 \<le> length Rs"
  shows "maxLikDimEstFromR_haro_approx E s Rs sg = Inl RecursionError"
proof -
  obtain R1 R2 rest where Rs: "Rs = R1 # R2 # rest"
    using assms(4) by (cases Rs; cases "tl Rs") auto
  have "nat (int (length Rs) - 1) = Suc (length rest)" using Rs by simp
  then have "take (nat (int (length Rs) - 1)) Rs = R1 # take (length rest) (R2 # rest)"
    using Rs by simp
  then show ?thesis
    using assms(1,2,3)
    by (simp add: maxLikDimEstFromR_haro_approx_def Let_def numInt_def call_dnoise_lambda)
qed

subsection \<open>The structure of fit\<close>

lemma fit_unfold:
  "fit E self X pre smooth nn_arg c =
     (let nn = (case nn_arg of None \<Rightarrow> N_NEIGHBORS | Some v \<Rightarrow> v);
          self2 = self\<lparr>n_neighbors := Some nn, comb := Some c\<rparr>
      in if len X \<le> nn \<or> len X \<le> K self
         then (Inl (NameError (''name '' @ quoted ''warnings'' @ '' is not defined'')), self)
         else case check_array X (nn + 1) 2 of
                Inl e \<Rightarrow> (Inl e, self2)
              | Inr Xc \<Rightarrow>
                  estimate E self2
                    (fst (case pre of Some p \<Rightarrow> p
                          | None \<Rightarrow> if neighborhood_based self then get_nn E Xc nn
                                    else get_nn E Xc (K self)))
                    (snd (case pre of Some p \<Rightarrow> p
                          | None \<Rightarrow> if neighborhood_based self then get_nn E Xc nn
                                    else get_nn E Xc (K self)))
                    smooth)"
  by (simp add: fit_def Let_def warnings_unbound case_prod_unfold
           split: sum.splits option.splits)

lemma estimate_nb:
  assumes "neighborhood_based self"
  shows "estimate E self dists knnidx smooth =
     (let S = (if dists = [] then self else self\<lparr>dnoise := resolve_dnoise self\<rparr>) in
      case fst (maxLikPointwiseDimEst E self dists) of
        Inl e \<Rightarrow> (Inl e, S)
      | Inr de \<Rightarrow>
          (case combine (S\<lparr>dimension_pw := Some de\<rparr>) de of
             Inl e \<Rightarrow> (Inl e, S\<lparr>dimension_pw := Some de\<rparr>)
           | Inr self3 \<Rightarrow>
               (case (if smooth then smooth_estimates self3 knnidx de else (Inr (), self3)) of
                  (Inl e, self4) \<Rightarrow> (Inl e, self4)
                | (Inr u, self4) \<Rightarrow>
                    (Inr (), self4\<lparr>is_fitted_pw := True, is_fitted := True\<rparr>))))"
proof -
  obtain r s1 where p: "maxLikPointwiseDimEst E self dists = (r, s1)"
    by (cases "maxLikPointwiseDimEst E self dists")
  then have "s1 = (if dists = [] then self else self\<lparr>dnoise := resolve_dnoise self\<rparr>)"
    using pointwise_state [of E self dists] by simp
  then show ?thesis
    using assms p by (simp add: estimate_def Let_def split: sum.splits)
qed

lemma estimate_global:
  assumes "\<not> neighborhood_based self" "n_neighbors self = Some m"
  shows "estimate E self dists knnidx smooth =
     (let Rs = py_slice_to m (sort (remdups (concat (transpose dists))));
          S = self\<lparr>dnoise := resolve_dnoise self\<rparr>
      in case fst (p_fit E self Rs (sqrt 2 * sigma self)) of
           Inl e \<Rightarrow> (Inl e, S)
         | Inr de \<Rightarrow> (Inr (), S\<lparr>dimension := Some de, is_fitted := True\<rparr>))"
proof -
  let ?Rs = "py_slice_to m (sort (remdups (concat (transpose dists))))"
  obtain r s1 where p: "p_fit E self ?Rs (sqrt 2 * sigma self) = (r, s1)"
    by (cases "p_fit E self ?Rs (sqrt 2 * sigma self)")
  then have "s1 = self\<lparr>dnoise := resolve_dnoise self\<rparr>"
    using p_fit_state [of E self ?Rs "sqrt 2 * sigma self"] by simp
  then show ?thesis
    using assms p by (simp add: estimate_def Let_def split: sum.splits)
qed

lemma smooth_estimates_frame:
  "smooth_estimates self knnidx de = (r, s') \<Longrightarrow>
     dnoise s' = dnoise self \<and> sigma s' = sigma self \<and> n s' = n self
     \<and> integral_approximation s' = integral_approximation self \<and> unbiased s' = unbiased self
     \<and> neighborhood_based s' = neighborhood_based self \<and> K s' = K self
     \<and> dimension s' = dimension self \<and> dimension_pw s' = dimension_pw self"
  by (auto simp: smooth_estimates_def split: prod.splits option.splits)

lemma combine_frame:
  "combine self de = Inr s' \<Longrightarrow>
     dnoise s' = dnoise self \<and> sigma s' = sigma self \<and> n s' = n self
     \<and> integral_approximation s' = integral_approximation self \<and> unbiased s' = unbiased self
     \<and> neighborhood_based s' = neighborhood_based self \<and> K s' = K self
     \<and> dimension_pw s' = dimension_pw self"
  by (auto simp: combine_def split: option.splits if_splits)

lemma estimate_frame:
  assumes "estimate E self dists knnidx smooth = (r, s')"
  shows "sigma s' = sigma self \<and> n s' = n self
     \<and> integral_approximation s' = integral_approximation self \<and> unbiased s' = unbiased self
     \<and> neighborhood_based s' = neighborhood_based self \<and> K s' = K self
     \<and> (dnoise s' = dnoise self \<or> dnoise s' = resolve_dnoise self)"
proof (cases "neighborhood_based self")
  case True
  show ?thesis
    using assms unfolding estimate_nb [OF True] Let_def
    by (auto split: sum.splits prod.splits if_splits
             dest!: combine_frame smooth_estimates_frame)
next
  case False
  show ?thesis
  proof (cases "n_neighbors self")
    case None
    then show ?thesis using assms False by (simp add: estimate_def)
  next
    case (Some m)
    show ?thesis
      using assms unfolding estimate_global [OF False Some] Let_def
      by (auto split: sum.splits)
  qed
qed

lemma fit_frame:
  assumes "fit E self X pre smooth nn_arg c = (r, s')"
  shows "sigma s' = sigma self \<and> n s' = n self
     \<and> integral_approximation s' = integral_approximation self \<and> unbiased s' = unbiased self
     \<and> neighborhood_based s' = neighborhood_based self \<and> K s' = K self
     \<and> (dnoise s' = dnoise self \<or> dnoise s' = resolve_dnoise self)"
proof -
  let ?nn = "case nn_arg of None \<Rightarrow> N_NEIGHBORS | Some v \<Rightarrow> v"
  let ?s2 = "self\<lparr>n_neighbors := Some ?nn, comb := Some c\<rparr>"
  have rs: "resolve_dnoise ?s2 = resolve_dnoise self" by (simp add: resolve_dnoise_def)
  show ?thesis
  proof (cases "len X \<le> ?nn \<or> len X \<le> K self")
    case True
    then show ?thesis using assms by (auto simp: fit_unfold Let_def)
  next
    case False
    show ?thesis
    proof (cases "check_array X (?nn + 1) 2")
      case (Inl e)
      then show ?thesis using assms False by (auto simp: fit_unfold Let_def)
    next
      case (Inr Xc)
      then obtain dists knnidx where "estimate E ?s2 dists knnidx smooth = (r, s')"
        using assms False by (simp add: fit_unfold Let_def)
      from estimate_frame [OF this] rs show ?thesis by simp
    qed
  qed
qed

subsection \<open>The neighbourhood-based estimate\<close>

lemma pointwise_knn3_default:
  assumes "dnoise s = DNone" "integral_approximation s = ''Haro''" "\<not> unbiased s"
  shows "fst (maxLikPointwiseDimEst E s (fst knn3)) = Inr [1 / ln 3, 1 / ln 2, 1 / ln (3 / 2)]"
proof -
  have h: "maxLikDimEstFromR_haro_approx E s [a, b] sg = Inr (1 / (ln (max a b / a) + ln (max a b / b)))"
    for a b sg
    using assms by (simp add: maxLikDimEstFromR_haro_approx_def np_max_def)
  have p: "p_fit E s [a, b] sg = (Inr (1 / (ln (max a b / a) + ln (max a b / b))), s)" for a b sg
    using assms h by (simp add: p_fit_def)
  show ?thesis
    by (simp add: knn3_def p)
qed

lemma estimate_nb_dnoise:
  assumes "neighborhood_based self" "dists \<noteq> []"
  shows "dnoise (snd (estimate E self dists knnidx smooth)) = resolve_dnoise self"
  using assms(2) unfolding estimate_nb [OF assms(1)] Let_def
  by (auto split: sum.splits prod.splits dest!: combine_frame smooth_estimates_frame)

lemma estimate_nb_success:
  assumes "neighborhood_based self" "estimate E self dists knnidx smooth = (Inr (), s')"
    "comb self = Some c"
  shows "\<exists>de. fst (maxLikPointwiseDimEst E self dists) = Inr de \<and> dimension_pw s' = Some de
     \<and> c \<in> set [''mle'', ''mean'', ''median'']
     \<and> (c = ''mle'' \<longrightarrow> dimension s' = Some (1 / np_mean (map (\<lambda>d. 1 / d) de)))
     \<and> (c = ''mean'' \<longrightarrow> dimension s' = Some (np_mean de))
     \<and> (c = ''median'' \<longrightarrow> dimension s' = Some (np_median de))"
  using assms(2,3) unfolding estimate_nb [OF assms(1)] Let_def
  by (auto simp: combine_def split: sum.splits prod.splits if_splits
           dest!: smooth_estimates_frame)

lemma estimate_nb_invalid_comb:
  assumes "neighborhood_based self" "fst (maxLikPointwiseDimEst E self dists) = Inr de"
    "comb self = Some c" "c \<notin> set [''mean'', ''median'', ''mle'']"
  shows "fst (estimate E self dists knnidx smooth) = Inl (ValueError msg_invalid_comb)
     \<and> dimension_pw (snd (estimate E self dists knnidx smooth)) = Some de
     \<and> dimension (snd (estimate E self dists knnidx smooth)) = dimension self"
  using assms(2,3,4) unfolding estimate_nb [OF assms(1)] Let_def
  by (auto simp: combine_def)

lemma fit_X3_default:
  assumes "c \<in> set [''mle'', ''mean'', ''median'']"
  shows "fst (fit env0 mle_default X3 (Some knn3) False (Some 2) c) = Inr ()"
    and "dimension_pw (snd (fit env0 mle_default X3 (Some knn3) False (Some 2) c))
           = Some [1 / ln 3, 1 / ln 2, 1 / ln (3 / 2)]"
proof -
  let ?s2 = "mle_default\<lparr>n_neighbors := Some 2, comb := Some c\<rparr>"
  have f: "fit env0 mle_default X3 (Some knn3) False (Some 2) c =
      estimate env0 ?s2 (fst knn3) (snd knn3) False"
    by (rule fit_X3) (simp add: mle_default_def init_def)
  have pw: "fst (maxLikPointwiseDimEst env0 ?s2 (fst knn3)) = Inr [1 / ln 3, 1 / ln 2, 1 / ln (3 / 2)]"
    by (rule pointwise_knn3_default) (simp_all add: mle_default_def init_def)
  have nb: "neighborhood_based ?s2" by (simp add: mle_default_def init_def)
  show "fst (fit env0 mle_default X3 (Some knn3) False (Some 2) c) = Inr ()"
    using assms unfolding f estimate_nb [OF nb] Let_def pw
    by (auto simp: combine_def)
  show "dimension_pw (snd (fit env0 mle_default X3 (Some knn3) False (Some 2) c))
           = Some [1 / ln 3, 1 / ln 2, 1 / ln (3 / 2)]"
    using assms unfolding f estimate_nb [OF nb] Let_def pw
    by (auto simp: combine_def)
qed

lemma check_array_shape:
  assumes "\<not> shape_ok X m" "m < len X"
  shows "\<exists>r. check_array X (m + 1) 2 = Inl (CheckArrayError r)"
  using assms
  by (cases X) (auto simp: shape_ok_def check_array_def)

section \<open>The claims\<close>

text \<open>
  C1. The claim: outside the Haro mode, with a noise model, the integrator's density is
  \<open>r * density(r, s, sigma, k)\<close> for the configured density, the rewrite being applied once
  per fit. The code comments line 291 with the same intent, but the closure of line 278
  reads \<^verbatim>\<open>self.dnoise\<close> when it is called, and by then that attribute is the closure
  itself: the call recurses until the interpreter's limit. With
  \<^verbatim>\<open>MLE(dnoise="dnoiseGaussH", sigma=1, integral_approximation="guaranteed.convergence")\<close>
  the estimate for the distances \<open>[1, 2]\<close> ends in RecursionError, the stored density
  raises it at \<open>r = 3\<close> instead of returning three times the Gaussian density, and the
  closure is what the estimator keeps after a pass over three points.
\<close>

theorem C1_density_rewrite_recurses:
  "p_fit env0 mle_gc [1, 2] 1 = (Inl RecursionError, mle_gc\<lparr>dnoise := DLambda\<rparr>)
   \<and> call_dnoise (recursion_limit env0) (mle_gc\<lparr>dnoise := DLambda\<rparr>) 3 1 1 None
       = Inl RecursionError
   \<and> dnoise (snd (maxLikPointwiseDimEst env0 mle_gc (fst knn3))) = DLambda"
proof (intro conjI)
  have h: "maxLikDimEstFromR_haro_approx env0 (mle_gc\<lparr>dnoise := DLambda\<rparr>) [1, 2] 1
             = Inl RecursionError"
    by (rule haro_lambda_raises [where Rk = 2 and x = 102 and cont = "\<lambda>y. Done ((102 - 0) * y)"])
       (simp_all add: env0_def right_end_rule_def np_max_def)
  show "p_fit env0 mle_gc [1, 2] 1 = (Inl RecursionError, mle_gc\<lparr>dnoise := DLambda\<rparr>)"
    using h by (simp add: p_fit_def mle_gc_def init_def)
  show "call_dnoise (recursion_limit env0) (mle_gc\<lparr>dnoise := DLambda\<rparr>) 3 1 1 None
       = Inl RecursionError"
    by (rule call_dnoise_lambda) simp
  show "dnoise (snd (maxLikPointwiseDimEst env0 mle_gc (fst knn3))) = DLambda"
    by (subst pointwise_state) (simp add: knn3_def resolve_dnoise_def mle_gc_def init_def)
qed

text \<open>
  C2. The claim: without neighbourhoods, the single estimate integrates with the noise
  scale \<open>sqrt(2) * sigma\<close>. The code passes that value to \<^verbatim>\<open>_fit\<close> (line 189), whose
  line 280 hands \<^verbatim>\<open>self.sigma\<close> on instead of its argument. With \<^verbatim>\<open>sigma = 1\<close>, the
  distance vector \<open>[1, 2]\<close> (the two smallest distinct distances of the three points) and
  an integrator that evaluates the integrand at the upper bound \<open>Rk + 100 * scale\<close>, the
  fitted dimension is the one of the scale \<open>sigma\<close>; the scale \<open>sqrt(2) * sigma\<close> gives
  another number. For every estimator, \<^verbatim>\<open>_fit\<close> called with \<open>sqrt(2) * sigma\<close> does what it
  does called with \<open>sigma\<close>.
\<close>

theorem C2_sigma_argument_ignored:
  "p_fit E self Rs (sqrt 2 * sigma self) = p_fit E self Rs (sigma self)
   \<and> dimension (snd (fit env0 mle_global X3 (Some knn3) False (Some 2) ''mle''))
     = Some (1 / ln (2 / (2 + 100 * sigma mle_global)))
   \<and> maxLikDimEstFromR_haro_approx env0 (mle_global\<lparr>dnoise := DGaussH\<rparr>) [1, 2]
        (sqrt 2 * sigma mle_global)
     = Inr (1 / ln (2 / (2 + 100 * (sqrt 2 * sigma mle_global))))
   \<and> 1 / ln (2 / (2 + 100 * sigma mle_global))
       \<noteq> 1 / ln (2 / (2 + 100 * (sqrt 2 * sigma mle_global)))"
proof (intro conjI)
  show "p_fit E self Rs (sqrt 2 * sigma self) = p_fit E self Rs (sigma self)"
    by (rule p_fit_sigma_ignored)
  let ?s = "mle_global\<lparr>n_neighbors := Some 2, comb := Some ''mle''\<rparr>"
  have sg: "sigma mle_global = 1" by (simp add: mle_global_def init_def)
  have h: "maxLikDimEstFromR_haro_approx env0 (?s\<lparr>dnoise := DGaussH\<rparr>) [1, 2] 1
             = Inr (1 / ln (2 / 102))"
    using haro_right_end_pair [of "?s\<lparr>dnoise := DGaussH\<rparr>" 1]
    by (simp add: mle_global_def init_def)
  have pf: "p_fit env0 ?s [1, 2] sg = (Inr (1 / ln (2 / 102)), ?s\<lparr>dnoise := DGaussH\<rparr>)" for sg
    using h by (simp add: p_fit_def mle_global_def init_def)
  have nb: "\<not> neighborhood_based ?s" "n_neighbors ?s = Some 2"
    by (simp_all add: mle_global_def init_def)
  have est: "estimate env0 ?s (fst knn3) (snd knn3) False =
      (Inr (), ?s\<lparr>dnoise := DGaussH, dimension := Some (1 / ln (2 / 102)), is_fitted := True\<rparr>)"
    unfolding estimate_def using nb
    by (simp add: flatten_knn3 py_slice_to_def pf)
  have "fit env0 mle_global X3 (Some knn3) False (Some 2) ''mle'' =
      estimate env0 ?s (fst knn3) (snd knn3) False"
    by (rule fit_X3) (simp add: mle_global_def init_def)
  then show "dimension (snd (fit env0 mle_global X3 (Some knn3) False (Some 2) ''mle''))
     = Some (1 / ln (2 / (2 + 100 * sigma mle_global)))"
    using est sg by simp
  show "maxLikDimEstFromR_haro_approx env0 (mle_global\<lparr>dnoise := DGaussH\<rparr>) [1, 2]
        (sqrt 2 * sigma mle_global)
     = Inr (1 / ln (2 / (2 + 100 * (sqrt 2 * sigma mle_global))))"
    by (rule haro_right_end_pair) (simp_all add: mle_global_def init_def)
  have "sqrt 2 \<noteq> (1 :: real)" by simp
  then have "(2 / 102 :: real) \<noteq> 2 / (2 + 100 * sqrt 2)"
    by (simp add: divide_simps)
  moreover have "(0 :: real) < 2 + 100 * sqrt 2"
    by (simp add: add_pos_pos)
  ultimately have "ln (2 / 102 :: real) \<noteq> ln (2 / (2 + 100 * sqrt 2))"
    using ln_inj_iff [of "2 / 102 :: real" "2 / (2 + 100 * sqrt 2)"] by simp
  then show "1 / ln (2 / (2 + 100 * sigma mle_global))
       \<noteq> 1 / ln (2 / (2 + 100 * (sqrt 2 * sigma mle_global)))"
    using sg by simp
qed

text \<open>
  C3, as stated, fails for the mode "iteration": \<^verbatim>\<open>_fit\<close> runs the estimate of line 280
  before it reaches the \<^verbatim>\<open>raise\<close> of line 282. On an empty distance vector the error
  that comes out is the one of \<^verbatim>\<open>np.max\<close> inside the estimate, not the validation error;
  with a noise model it is the error raised inside the integrand.
\<close>

theorem C3_iteration_counterexample:
  "fst (p_fit env0 mle_iteration [] 0) = Inl (ValueError msg_zero_size_max)
   \<and> msg_zero_size_max \<noteq> msg_iteration_not_implemented
   \<and> fst (p_fit env0 (mle_iteration\<lparr>dnoise := DStr ''dnoiseGaussH'', sigma := 1\<rparr>) [1, 2] 1)
       = Inl RecursionError"
proof (intro conjI)
  show "fst (p_fit env0 mle_iteration [] 0) = Inl (ValueError msg_zero_size_max)"
    by (simp add: p_fit_def mle_iteration_def init_def maxLikDimEstFromR_haro_approx_def np_max_Nil)
  show "msg_zero_size_max \<noteq> msg_iteration_not_implemented"
    by (simp add: msg_zero_size_max_def msg_iteration_not_implemented_def)
  let ?s = "mle_iteration\<lparr>dnoise := DLambda, sigma := 1\<rparr>"
  have "maxLikDimEstFromR_haro_approx env0 ?s [1, 2] 1 = Inl RecursionError"
    by (rule haro_lambda_raises [where Rk = 2 and x = 102 and cont = "\<lambda>y. Done ((102 - 0) * y)"])
       (simp_all add: env0_def right_end_rule_def np_max_def)
  then show "fst (p_fit env0 (mle_iteration\<lparr>dnoise := DStr ''dnoiseGaussH'', sigma := 1\<rparr>) [1, 2] 1)
       = Inl RecursionError"
    by (simp add: p_fit_def mle_iteration_def init_def)
qed

text \<open>
  C3, amended. A value of \<^verbatim>\<open>integral_approximation\<close> outside the three named modes makes
  \<^verbatim>\<open>_fit\<close> raise ValueError at once, the estimator unchanged and whatever the distances
  and the integrator are. With "iteration", \<^verbatim>\<open>_fit\<close> never returns an estimate: it first
  rewrites \<^verbatim>\<open>self.dnoise\<close> (to the closure, when there is a noise model) and computes the
  Haro estimate of line 280; an error raised inside that computation is the error that
  comes out (the one of \<^verbatim>\<open>np.max\<close> on an empty vector), and when the computation completes
  (as it does without a noise model on a non-empty vector) the "not implemented"
  ValueError of line 282 is raised.
\<close>

theorem C3_fit_validation:
  "(integral_approximation self \<notin> set [''Haro'', ''guaranteed.convergence'', ''iteration'']
      \<longrightarrow> p_fit E self Rs sg = (Inl (ValueError msg_unknown_integral_approximation), self))
   \<and> (integral_approximation self = ''iteration''
      \<longrightarrow> p_fit E self Rs sg =
            (case maxLikDimEstFromR_haro_approx E
                    (if dnoise self = DNone then self else self\<lparr>dnoise := DLambda\<rparr>)
                    Rs (sigma self) of
               Inl e \<Rightarrow> (Inl e, if dnoise self = DNone then self else self\<lparr>dnoise := DLambda\<rparr>)
             | Inr de \<Rightarrow>
                 (Inl (ValueError msg_iteration_not_implemented),
                  if dnoise self = DNone then self else self\<lparr>dnoise := DLambda\<rparr>))
          \<and> (\<exists>e. fst (p_fit E self Rs sg) = Inl e)
          \<and> (Rs = [] \<longrightarrow> fst (p_fit E self Rs sg) = Inl (ValueError msg_zero_size_max))
          \<and> (dnoise self = DNone \<and> Rs \<noteq> []
               \<longrightarrow> p_fit E self Rs sg = (Inl (ValueError msg_iteration_not_implemented), self)))"
proof (intro conjI impI)
  assume "integral_approximation self \<notin> set [''Haro'', ''guaranteed.convergence'', ''iteration'']"
  then show "p_fit E self Rs sg = (Inl (ValueError msg_unknown_integral_approximation), self)"
    by (simp add: p_fit_def)
next
  assume it: "integral_approximation self = ''iteration''"
  show "p_fit E self Rs sg =
            (case maxLikDimEstFromR_haro_approx E
                    (if dnoise self = DNone then self else self\<lparr>dnoise := DLambda\<rparr>)
                    Rs (sigma self) of
               Inl e \<Rightarrow> (Inl e, if dnoise self = DNone then self else self\<lparr>dnoise := DLambda\<rparr>)
             | Inr de \<Rightarrow>
                 (Inl (ValueError msg_iteration_not_implemented),
                  if dnoise self = DNone then self else self\<lparr>dnoise := DLambda\<rparr>))"
    using it by (simp add: p_fit_def Let_def split: sum.splits)
next
  assume "integral_approximation self = ''iteration''"
  then show "\<exists>e. fst (p_fit E self Rs sg) = Inl e"
    by (simp add: p_fit_def Let_def split: sum.splits)
next
  assume "integral_approximation self = ''iteration''" and "Rs = []"
  then show "fst (p_fit E self Rs sg) = Inl (ValueError msg_zero_size_max)"
    by (simp add: p_fit_def Let_def maxLikDimEstFromR_haro_approx_def np_max_Nil)
next
  assume it: "integral_approximation self = ''iteration''" and "dnoise self = DNone \<and> Rs \<noteq> []"
  then have "\<exists>de. maxLikDimEstFromR_haro_approx E self Rs (sigma self) = Inr de"
    using haro_no_noise [of self Rs E "sigma self"] by simp
  then show "p_fit E self Rs sg = (Inl (ValueError msg_iteration_not_implemented), self)"
    using it \<open>dnoise self = DNone \<and> Rs \<noteq> []\<close> by (auto simp: p_fit_def)
qed

theorem C3_fit_validation_witness:
  "p_fit env0 mle_bogus [1, 2] 0 = (Inl (ValueError msg_unknown_integral_approximation), mle_bogus)
   \<and> p_fit env0 mle_iteration [1, 2] 0
       = (Inl (ValueError msg_iteration_not_implemented), mle_iteration)
   \<and> fst (p_fit env0 mle_iteration [] 0) = Inl (ValueError msg_zero_size_max)"
proof -
  have b: "integral_approximation mle_bogus
             \<notin> set [''Haro'', ''guaranteed.convergence'', ''iteration'']"
    by (simp add: mle_bogus_def init_def)
  have i: "integral_approximation mle_iteration = ''iteration''"
    by (simp add: mle_iteration_def init_def)
  have d: "dnoise mle_iteration = DNone \<and> [1, 2 :: real] \<noteq> []"
    by (simp add: mle_iteration_def init_def)
  have "p_fit env0 mle_bogus [1, 2] 0
          = (Inl (ValueError msg_unknown_integral_approximation), mle_bogus)"
    using C3_fit_validation [where self = mle_bogus and E = env0 and Rs = "[1, 2]" and sg = 0] b
    by blast
  moreover have "p_fit env0 mle_iteration [1, 2] 0
          = (Inl (ValueError msg_iteration_not_implemented), mle_iteration)"
    using C3_fit_validation [where self = mle_iteration and E = env0 and Rs = "[1, 2]" and sg = 0]
      i d
    by blast
  moreover have "fst (p_fit env0 mle_iteration [] 0) = Inl (ValueError msg_zero_size_max)"
    using C3_fit_validation [where self = mle_iteration and E = env0 and Rs = "[]" and sg = 0] i
    by blast
  ultimately show ?thesis by blast
qed

text \<open>
  C4, as stated, gives the value for \<open>Rs = [1, 2, 3, 4, 5]\<close>, \<^verbatim>\<open>unbiased=False\<close> as about
  2.27. The closed form is the one stated, but its value is more than 1 away from 2.27.
\<close>

theorem C4_example_value_counterexample:
  "maxLikDimEstFromR_haro_approx env0 mle_default [1, 2, 3, 4, 5] 0
     = Inr (4 / (ln (5 / 1) + ln (5 / 2) + ln (5 / 3) + ln (5 / 4) + ln (5 / 5)))
   \<and> 1 < \<bar>4 / (ln (5 / 1) + ln (5 / 2) + ln (5 / 3) + ln (5 / 4) + ln (5 / 5)) - 227 / 100 :: real\<bar>"
proof
  show "maxLikDimEstFromR_haro_approx env0 mle_default [1, 2, 3, 4, 5] 0
     = Inr (4 / (ln (5 / 1) + ln (5 / 2) + ln (5 / 3) + ln (5 / 4) + ln (5 / 5)))"
    by (rule haro_example) (simp_all add: mle_default_def init_def)
  show "1 < \<bar>4 / (ln (5 / 1) + ln (5 / 2) + ln (5 / 3) + ln (5 / 4) + ln (5 / 5)) - 227 / 100 :: real\<bar>"
    using example_value_bounds(2) by linarith
qed

text \<open>
  C4, amended. For every non-empty distance vector \<open>Rs\<close> of length \<open>k\<close>, without a noise
  model, the pointwise estimate is \<open>kfac / (\<Sum>i<k. ln (Rk / Rs[i]))\<close> with \<open>Rk = max(Rs)\<close>
  and \<open>kfac = k - 2\<close> when unbiased, else \<open>k - 1\<close>. For \<open>Rs = [1, 2, 3, 4, 5]\<close> and
  \<^verbatim>\<open>unbiased=False\<close> it is \<open>4 / (ln(5/1) + ln(5/2) + ln(5/3) + ln(5/4) + ln(5/5))\<close>, a number
  between \<open>92/75\<close> and \<open>27/22\<close>, that is about 1.227.
\<close>

theorem C4_closed_form:
  assumes "dnoise self = DNone" and "Rs \<noteq> []"
  shows "maxLikDimEstFromR_haro_approx E self Rs sg =
           Inr (real_of_int (if unbiased self then int (length Rs) - 2 else int (length Rs) - 1)
                  / (\<Sum>i<length Rs. ln (Max (set Rs) / Rs ! i)))
         \<and> (\<not> unbiased self \<longrightarrow>
              maxLikDimEstFromR_haro_approx E self [1, 2, 3, 4, 5] sg
                = Inr (4 / (ln (5 / 1) + ln (5 / 2) + ln (5 / 3) + ln (5 / 4) + ln (5 / 5)))
              \<and> 92 / 75 < 4 / (ln (5 / 1) + ln (5 / 2) + ln (5 / 3) + ln (5 / 4) + ln (5 / 5 :: real))
              \<and> 4 / (ln (5 / 1) + ln (5 / 2) + ln (5 / 3) + ln (5 / 4) + ln (5 / 5 :: real)) < 27 / 22)"
  using haro_no_noise [OF assms] haro_example [OF assms(1)] example_value_bounds
  by blast

theorem C4_closed_form_witness:
  "maxLikDimEstFromR_haro_approx env0 mle_default [1, 2, 4] 0 = Inr (2 / (ln 4 + ln 2))
   \<and> maxLikDimEstFromR_haro_approx env0 (mle_default\<lparr>unbiased := True\<rparr>) [1, 2, 4] 0
       = Inr (1 / (ln 4 + ln 2))
   \<and> maxLikDimEstFromR_haro_approx env0 mle_default [1, 2, 3, 4, 5] 0
       = Inr (4 / (ln (5 / 1) + ln (5 / 2) + ln (5 / 3) + ln (5 / 4) + ln (5 / 5)))"
  using C4_closed_form [where self = mle_default and Rs = "[1, 2, 4]" and E = env0 and sg = 0]
    C4_closed_form [where self = "mle_default\<lparr>unbiased := True\<rparr>" and Rs = "[1, 2, 4]"
      and E = env0 and sg = 0]
  by (simp add: mle_default_def init_def lessThan_Suc eval_nat_numeral)

text \<open>
  C5. The claim: when \<^verbatim>\<open>n_neighbors\<close> or \<^verbatim>\<open>K\<close> is at least \<^verbatim>\<open>len(X)\<close>, \<^verbatim>\<open>fit\<close> clamps
  the value to \<^verbatim>\<open>len(X)-1\<close>, warns and goes on to a normal result. The code calls
  \<^verbatim>\<open>warnings.warn\<close> first, and the module never imports \<^verbatim>\<open>warnings\<close>: on three samples
  with the default \<^verbatim>\<open>n_neighbors = 20\<close>, and on three samples with \<^verbatim>\<open>K = 5\<close>, the call ends
  in NameError and the estimator is left as it was.
\<close>

theorem C5_clamp_raises_NameError:
  "fit env0 mle_default X3 None False None ''mle''
     = (Inl (NameError (''name '' @ quoted ''warnings'' @ '' is not defined'')), mle_default)
   \<and> fit env0 (mle_default\<lparr>K := 5\<rparr>) X3 None False (Some 2) ''mle''
     = (Inl (NameError (''name '' @ quoted ''warnings'' @ '' is not defined'')),
        mle_default\<lparr>K := 5\<rparr>)"
proof
  show "fit env0 mle_default X3 None False None ''mle''
     = (Inl (NameError (''name '' @ quoted ''warnings'' @ '' is not defined'')), mle_default)"
    by (rule fit_too_few_samples) (simp add: len_X3 N_NEIGHBORS_def)
  show "fit env0 (mle_default\<lparr>K := 5\<rparr>) X3 None False (Some 2) ''mle''
     = (Inl (NameError (''name '' @ quoted ''warnings'' @ '' is not defined'')),
        mle_default\<lparr>K := 5\<rparr>)"
    by (rule fit_K_too_large) (simp add: len_X3)
qed

text \<open>
  C6, as stated, fails: with \<^verbatim>\<open>comb="bogus"\<close> the ValueError comes after the pointwise
  estimates of all three points have been computed and stored, and its message does not
  name "mle".
\<close>

theorem C6_invalid_comb_counterexample:
  "fst (fit env0 mle_default X3 (Some knn3) False (Some 2) ''bogus'')
     = Inl (ValueError msg_invalid_comb)
   \<and> dimension_pw (snd (fit env0 mle_default X3 (Some knn3) False (Some 2) ''bogus''))
     = Some [1 / ln 3, 1 / ln 2, 1 / ln (3 / 2)]
   \<and> dimension_pw mle_default = None
   \<and> \<not> contains ''mle'' msg_invalid_comb"
proof (intro conjI)
  let ?s2 = "mle_default\<lparr>n_neighbors := Some 2, comb := Some ''bogus''\<rparr>"
  have f: "fit env0 mle_default X3 (Some knn3) False (Some 2) ''bogus'' =
      estimate env0 ?s2 (fst knn3) (snd knn3) False"
    by (rule fit_X3) (simp add: mle_default_def init_def)
  have pw: "fst (maxLikPointwiseDimEst env0 ?s2 (fst knn3)) = Inr [1 / ln 3, 1 / ln 2, 1 / ln (3 / 2)]"
    by (rule pointwise_knn3_default) (simp_all add: mle_default_def init_def)
  have nb: "neighborhood_based ?s2" by (simp add: mle_default_def init_def)
  have e: "fst (estimate env0 ?s2 (fst knn3) (snd knn3) False) = Inl (ValueError msg_invalid_comb)
     \<and> dimension_pw (snd (estimate env0 ?s2 (fst knn3) (snd knn3) False))
         = Some [1 / ln 3, 1 / ln 2, 1 / ln (3 / 2)]
     \<and> dimension (snd (estimate env0 ?s2 (fst knn3) (snd knn3) False)) = dimension ?s2"
    by (rule estimate_nb_invalid_comb [OF nb pw, of "''bogus''"]) simp_all
  show "fst (fit env0 mle_default X3 (Some knn3) False (Some 2) ''bogus'')
     = Inl (ValueError msg_invalid_comb)"
    using e f by simp
  show "dimension_pw (snd (fit env0 mle_default X3 (Some knn3) False (Some 2) ''bogus''))
     = Some [1 / ln 3, 1 / ln 2, 1 / ln (3 / 2)]"
    using e f by simp
  show "dimension_pw mle_default = None"
    by (simp add: mle_default_def init_def)
  show "\<not> contains ''mle'' msg_invalid_comb"
    by (simp add: msg_invalid_comb_def quoted_def)
qed

text \<open>
  C6, amended. In a neighbourhood-based \<^verbatim>\<open>fit\<close> call whose \<^verbatim>\<open>comb\<close> is none of "mean",
  "median", "mle", and which would succeed with \<^verbatim>\<open>comb="mean"\<close> and no smoothing, the call
  raises ValueError with the message "Invalid comb parameter ...". It does so after the
  pointwise estimation: the estimates are stored in \<^verbatim>\<open>dimension_pw_\<close>, the same as in the
  successful call, and \<^verbatim>\<open>dimension_\<close> is not assigned.
\<close>

theorem C6_invalid_comb_after_estimation:
  assumes "neighborhood_based self" and "c \<notin> set [''mean'', ''median'', ''mle'']"
    and "fst (fit E self X pre False nn_arg ''mean'') = Inr ()"
  shows "fst (fit E self X pre smooth nn_arg c) = Inl (ValueError msg_invalid_comb)
     \<and> dimension_pw (snd (fit E self X pre smooth nn_arg c))
         = dimension_pw (snd (fit E self X pre False nn_arg ''mean''))
     \<and> dimension_pw (snd (fit E self X pre smooth nn_arg c)) \<noteq> None
     \<and> dimension (snd (fit E self X pre smooth nn_arg c)) = dimension self"
proof -
  let ?nn = "case nn_arg of None \<Rightarrow> N_NEIGHBORS | Some v \<Rightarrow> v"
  let ?sm = "self\<lparr>n_neighbors := Some ?nn, comb := Some ''mean''\<rparr>"
  let ?sc = "self\<lparr>n_neighbors := Some ?nn, comb := Some c\<rparr>"
  have ok: "\<not> (len X \<le> ?nn \<or> len X \<le> K self)"
    using assms(3) by (auto simp: fit_unfold Let_def)
  then obtain Xc where chk: "check_array X (?nn + 1) 2 = Inr Xc"
    using assms(3) by (cases "check_array X (?nn + 1) 2") (auto simp: fit_unfold Let_def)
  define arrays where "arrays = (case pre of Some p \<Rightarrow> p
      | None \<Rightarrow> if neighborhood_based self then get_nn E Xc ?nn else get_nn E Xc (K self))"
  have fm: "fit E self X pre False nn_arg ''mean'' = estimate E ?sm (fst arrays) (snd arrays) False"
    using ok chk by (simp add: fit_unfold Let_def arrays_def)
  have fc: "fit E self X pre smooth nn_arg c = estimate E ?sc (fst arrays) (snd arrays) smooth"
    using ok chk by (simp add: fit_unfold Let_def arrays_def)
  have nbm: "neighborhood_based ?sm" and nbc: "neighborhood_based ?sc"
    using assms(1) by simp_all
  obtain sm' where "estimate E ?sm (fst arrays) (snd arrays) False = (Inr (), sm')"
    using assms(3) fm by (cases "estimate E ?sm (fst arrays) (snd arrays) False") simp
  from estimate_nb_success [OF nbm this, of "''mean''"]
  obtain de where de: "fst (maxLikPointwiseDimEst E ?sm (fst arrays)) = Inr de"
      "dimension_pw (snd (estimate E ?sm (fst arrays) (snd arrays) False)) = Some de"
    using \<open>estimate E ?sm (fst arrays) (snd arrays) False = (Inr (), sm')\<close> by auto
  have "fst (maxLikPointwiseDimEst E ?sc (fst arrays)) = fst (maxLikPointwiseDimEst E ?sm (fst arrays))"
    by (rule pointwise_cong) simp_all
  then have dec: "fst (maxLikPointwiseDimEst E ?sc (fst arrays)) = Inr de"
    using de(1) by simp
  have "comb ?sc = Some c" by simp
  from estimate_nb_invalid_comb [OF nbc dec this assms(2), of "snd arrays" smooth]
  show ?thesis
    using fc fm de(2) by simp
qed

theorem C6_invalid_comb_after_estimation_witness:
  "fst (fit env0 mle_default X3 (Some knn3) True (Some 2) ''harmonic'')
     = Inl (ValueError msg_invalid_comb)
   \<and> dimension_pw (snd (fit env0 mle_default X3 (Some knn3) True (Some 2) ''harmonic''))
     = Some [1 / ln 3, 1 / ln 2, 1 / ln (3 / 2)]
   \<and> dimension (snd (fit env0 mle_default X3 (Some knn3) True (Some 2) ''harmonic'')) = None"
proof -
  have nb: "neighborhood_based mle_default" by (simp add: mle_default_def init_def)
  have c: "''harmonic'' \<notin> set [''mean'', ''median'', ''mle'']" by simp
  have m: "fst (fit env0 mle_default X3 (Some knn3) False (Some 2) ''mean'') = Inr ()"
    by (rule fit_X3_default(1)) simp
  show ?thesis
    using C6_invalid_comb_after_estimation [OF nb c m, of True]
      fit_X3_default(2) [of "''mean''"]
    by (simp add: mle_default_def init_def)
qed

text \<open>
  C7, as stated, fails for \<^verbatim>\<open>dnoise\<close>: \<^verbatim>\<open>_fit\<close> assigns to \<^verbatim>\<open>self.dnoise\<close> (lines 275 and
  278). After a fit, the configured string "dnoiseGaussH" has become the density function,
  and outside the Haro mode the closure.
\<close>

theorem C7_dnoise_rewritten_counterexample:
  "dnoise mle_noise = DStr ''dnoiseGaussH''
   \<and> dnoise (snd (fit env0 mle_noise X3 (Some knn3) False (Some 2) ''mle'')) = DGaussH
   \<and> dnoise (snd (fit env0 mle_gc X3 (Some knn3) False (Some 2) ''mle'')) = DLambda"
proof (intro conjI)
  show "dnoise mle_noise = DStr ''dnoiseGaussH''"
    by (simp add: mle_noise_def init_def)
  have "fit env0 mle_noise X3 (Some knn3) False (Some 2) ''mle'' =
      estimate env0 (mle_noise\<lparr>n_neighbors := Some 2, comb := Some ''mle''\<rparr>)
        (fst knn3) (snd knn3) False"
    by (rule fit_X3) (simp add: mle_noise_def init_def)
  then show "dnoise (snd (fit env0 mle_noise X3 (Some knn3) False (Some 2) ''mle'')) = DGaussH"
    by (simp add: estimate_nb_dnoise mle_noise_def init_def knn3_def resolve_dnoise_def)
  have "fit env0 mle_gc X3 (Some knn3) False (Some 2) ''mle'' =
      estimate env0 (mle_gc\<lparr>n_neighbors := Some 2, comb := Some ''mle''\<rparr>)
        (fst knn3) (snd knn3) False"
    by (rule fit_X3) (simp add: mle_gc_def init_def)
  then show "dnoise (snd (fit env0 mle_gc X3 (Some knn3) False (Some 2) ''mle'')) = DLambda"
    by (simp add: estimate_nb_dnoise mle_gc_def init_def knn3_def resolve_dnoise_def)
qed

text \<open>
  C7, amended. After every \<^verbatim>\<open>fit\<close> call, returned or raised, \<^verbatim>\<open>sigma\<close>, \<^verbatim>\<open>n\<close>,
  \<^verbatim>\<open>integral_approximation\<close>, \<^verbatim>\<open>unbiased\<close> and \<^verbatim>\<open>neighborhood_based\<close> are unchanged;
  \<^verbatim>\<open>K\<close> is unchanged when it is below \<^verbatim>\<open>len(X)\<close>; \<^verbatim>\<open>dnoise\<close> is unchanged when it is
  \<^verbatim>\<open>None\<close>, and otherwise is either unchanged or the value \<^verbatim>\<open>_fit\<close> resolves it to.
\<close>

theorem C7_options_frame:
  "sigma (snd (fit E self X pre smooth nn_arg c)) = sigma self
   \<and> n (snd (fit E self X pre smooth nn_arg c)) = n self
   \<and> integral_approximation (snd (fit E self X pre smooth nn_arg c)) = integral_approximation self
   \<and> unbiased (snd (fit E self X pre smooth nn_arg c)) = unbiased self
   \<and> neighborhood_based (snd (fit E self X pre smooth nn_arg c)) = neighborhood_based self
   \<and> (K self < len X \<longrightarrow> K (snd (fit E self X pre smooth nn_arg c)) = K self)
   \<and> (dnoise self = DNone \<longrightarrow> dnoise (snd (fit E self X pre smooth nn_arg c)) = DNone)
   \<and> (dnoise (snd (fit E self X pre smooth nn_arg c)) = dnoise self
        \<or> dnoise (snd (fit E self X pre smooth nn_arg c)) = resolve_dnoise self)"
proof -
  obtain r s' where f: "fit E self X pre smooth nn_arg c = (r, s')"
    by (cases "fit E self X pre smooth nn_arg c")
  from fit_frame [OF f] show ?thesis
    unfolding f by auto
qed

theorem C7_options_frame_witness:
  "K (snd (fit env0 mle_default X3 (Some knn3) False (Some 2) ''mle'')) = 2
   \<and> dnoise (snd (fit env0 mle_default X3 (Some knn3) False (Some 2) ''mle'')) = DNone
   \<and> sigma (snd (fit env0 mle_noise X3 (Some knn3) False (Some 2) ''mle'')) = 1"
  using C7_options_frame [where E = env0 and self = mle_default and X = X3 and pre = "Some knn3"
      and smooth = False and nn_arg = "Some 2" and c = "''mle''"]
    C7_options_frame [where E = env0 and self = mle_noise and X = X3 and pre = "Some knn3"
      and smooth = False and nn_arg = "Some 2" and c = "''mle''"]
  by (simp add: mle_default_def mle_noise_def init_def len_X3)

text \<open>
  C8. In a neighbourhood-based \<^verbatim>\<open>fit\<close> call that returns, \<^verbatim>\<open>comb\<close> is one of the three
  policies and \<^verbatim>\<open>dimension_\<close> is computed from the array \<^verbatim>\<open>dimension_pw_\<close>: with "mle" it
  is the reciprocal of the arithmetic mean of the reciprocals, with "mean" the arithmetic
  mean, with "median" the median.
\<close>

theorem C8_combination:
  assumes "neighborhood_based self" and "fit E self X pre smooth nn_arg c = (Inr (), s')"
  shows "\<exists>pw. dimension_pw s' = Some pw
     \<and> c \<in> set [''mle'', ''mean'', ''median'']
     \<and> (c = ''mle'' \<longrightarrow>
          dimension s' = Some (1 / (sum_list (map (\<lambda>d. 1 / d) pw) / real (length pw))))
     \<and> (c = ''mean'' \<longrightarrow> dimension s' = Some (sum_list pw / real (length pw)))
     \<and> (c = ''median'' \<longrightarrow> dimension s' = Some (np_median pw))"
proof -
  let ?nn = "case nn_arg of None \<Rightarrow> N_NEIGHBORS | Some v \<Rightarrow> v"
  let ?s2 = "self\<lparr>n_neighbors := Some ?nn, comb := Some c\<rparr>"
  obtain dists knnidx where est: "estimate E ?s2 dists knnidx smooth = (Inr (), s')"
    using assms(2) by (auto simp: fit_unfold Let_def split: if_splits sum.splits)
  have "neighborhood_based ?s2" "comb ?s2 = Some c" using assms(1) by simp_all
  from estimate_nb_success [OF this(1) est this(2)] show ?thesis
    by (auto simp: np_mean_def)
qed

theorem C8_combination_witness:
  "dimension (snd (fit env0 mle_default X3 (Some knn3) False (Some 2) ''mle''))
     = Some (1 / ((ln 3 + ln 2 + ln (3 / 2)) / 3))
   \<and> dimension (snd (fit env0 mle_default X3 (Some knn3) False (Some 2) ''mean''))
     = Some ((1 / ln 3 + 1 / ln 2 + 1 / ln (3 / 2)) / 3)
   \<and> dimension (snd (fit env0 mle_default X3 (Some knn3) False (Some 2) ''median''))
     = Some (np_median [1 / ln 3, 1 / ln 2, 1 / ln (3 / 2)])"
proof -
  have nb: "neighborhood_based mle_default" by (simp add: mle_default_def init_def)
  have r: "fit env0 mle_default X3 (Some knn3) False (Some 2) c
      = (Inr (), snd (fit env0 mle_default X3 (Some knn3) False (Some 2) c))"
    if "c \<in> set [''mle'', ''mean'', ''median'']" for c
    using fit_X3_default(1) [OF that] by (simp add: prod_eq_iff)
  have a: "fit env0 mle_default X3 (Some knn3) False (Some 2) ''mle''
      = (Inr (), snd (fit env0 mle_default X3 (Some knn3) False (Some 2) ''mle''))"
    by (rule r) simp
  have b: "fit env0 mle_default X3 (Some knn3) False (Some 2) ''mean''
      = (Inr (), snd (fit env0 mle_default X3 (Some knn3) False (Some 2) ''mean''))"
    by (rule r) simp
  have c: "fit env0 mle_default X3 (Some knn3) False (Some 2) ''median''
      = (Inr (), snd (fit env0 mle_default X3 (Some knn3) False (Some 2) ''median''))"
    by (rule r) simp
  show ?thesis
    using C8_combination [OF nb a] C8_combination [OF nb b] C8_combination [OF nb c]
      fit_X3_default(2) [of "''mle''"] fit_X3_default(2) [of "''mean''"]
      fit_X3_default(2) [of "''median''"]
    by (auto simp: add.assoc)
qed




end
